theory Spec2Isabelle
  imports Complex_Main
begin

section \<open>Data model of the game room client\<close>

text \<open>
  The component \<open>GameRoom\<close> (GameRoom.js) keeps the room snapshot and a handful of
  derived flags in React state, and two refs. Its callbacks are modelled as functions from
  a state to the next state together with the list of effects they emit (requests, socket
  messages, toasts, timers). An \<open>async\<close> callback is split at its \<open>await\<close>: the part
  before the request (\<open>_request\<close>) and the part that runs when the request settles
  (\<open>_settle\<close>), since other callbacks may run in between.

  A JavaScript value that may be \<open>undefined\<close> or \<open>null\<close> is a value of \<open>'a js\<close>;
  HOL equality on it is \<open>===\<close> on primitives. In a parsed response \<open>Undefined\<close> stands
  for a key that is absent. Timestamps are integers (milliseconds), elapsed seconds are
  rationals. Of a room, a question, an answer and a player the records keep the
  keys that the callbacks read. The flag \<open>hasAnswered\<close> is only ever tested for
  truth, so the \<open>undefined\<close> that line 96 can store in it is \<open>False\<close>. The current
  user is signed in; \<open>me\<close> is \<open>currentUser._id\<close>.
\<close>

datatype 'a js = Undefined | Null | Val 'a

fun truthy :: "'a js \<Rightarrow> bool" where
  "truthy (Val _) = True"
| "truthy _ = False"

type_synonym ident = string

record question =
  q_id :: ident
  q_text :: string

record answer =
  a_user :: ident
  a_question :: ident
  a_round :: "int js"
  a_answer :: bool
  a_timeToAnswer :: "rat option"

record player =
  p_user_id :: ident
  p_name :: string
  p_points :: int

record room =
  status :: string
  roomType :: string
  hostId :: "ident js"
  players :: "player list"
  maxPlayers :: int
  maxRounds :: int
  currentRound :: "int js"
  currentQuestion :: "question js"
  answers :: "answer list js"

record summary =
  yesCount :: int
  noCount :: int
  s_question :: string

record state =
  room :: "room option"
  isLoading :: bool
  error :: "string option"
  isJoining :: bool
  passcode :: string
  roundResults :: "summary option"
  hasAnswered :: bool
  questionStartTime :: "int option"
  answerTime :: "rat option"
  canAnswer :: bool
  lastUpdated :: int
  lastPollingUpdate :: int
  isRefreshing :: bool
  isTransitioning :: bool
  fetchTimeoutRef :: "int option"
  fetchInProgressRef :: bool

text \<open>
  A callback reads the state variables of the render in which it was created. These
  captured values are a parameter of every callback, so that a callback created in an
  earlier render (holding older values than the state it updates) is covered;
  \<open>capture\<close> is the closure of the current render.
\<close>

record closure =
  c_room :: "room option"
  c_isTransitioning :: bool
  c_roundResults :: "summary option"
  c_lastUpdated :: int
  c_lastPollingUpdate :: int
  c_isRefreshing :: bool
  c_questionStartTime :: "int option"
  c_passcode :: string

definition capture :: "state \<Rightarrow> closure" where
  "capture st = \<lparr> c_room = room st, c_isTransitioning = isTransitioning st,
     c_roundResults = roundResults st, c_lastUpdated = lastUpdated st,
     c_lastPollingUpdate = lastPollingUpdate st, c_isRefreshing = isRefreshing st,
     c_questionStartTime = questionStartTime st, c_passcode = passcode st \<rparr>"


datatype toast_kind = ToastInfo | ToastSuccess | ToastError

datatype timer_callback =
    EnableAnswer
  | PublishRoundResults summary
  | ScheduledFetch
  | EndTransition

datatype effect =
    ApiGetRoom
  | ApiPostJoin ident "string js"
  | ApiPostAnswer ident bool rat
  | SocketJoinRoom ident
  | SocketSubmitAnswer ident bool rat
  | Toast toast_kind string
  | ToastRoundStarted "int js"
  | SetTimeout int timer_callback
  | ConsoleError
  | ConsoleLog

datatype exn = TypeError

datatype transport_error = TransportError "string js"

section \<open>Timing feedback\<close>

text \<open>
  \<open>handleAnswer\<close>, lines 547-556: the toast chosen from \<open>timeToAnswer\<close>, the seconds
  between the question's start and the submission.
\<close>

datatype tier = TooQuickly | SpeedBonus3 | SpeedBonus1 | TooSlowly

definition tier :: "rat \<Rightarrow> tier" where
  "tier timeToAnswer =
     (if timeToAnswer < 3 then TooQuickly
      else if timeToAnswer \<le> 5 then SpeedBonus3
      else if timeToAnswer \<le> 15 then SpeedBonus1
      else TooSlowly)"

fun tierToast :: "tier \<Rightarrow> effect" where
  "tierToast TooQuickly = Toast ToastInfo ''Base points only - answered too quickly!''"
| "tierToast SpeedBonus3 = Toast ToastSuccess ''Speed bonus: +3 points!''"
| "tierToast SpeedBonus1 = Toast ToastSuccess ''Speed bonus: +1 point!''"
| "tierToast TooSlowly = Toast ToastInfo ''Base points only - answered too slowly''"

text \<open>
  \<open>timeToAnswer = (now - questionStartTime) / 1000\<close>; a \<open>null\<close> start time counts as 0
  in the subtraction. The code holds the double nearest to this quotient of integers;
  its comparisons with 3, 5 and 15 are those of the quotient, which is one of these
  numbers or at least 1/1000 away from it.
\<close>

definition timeToAnswer :: "int \<Rightarrow> int option \<Rightarrow> rat" where
  "timeToAnswer now start =
     of_int (now - (case start of None \<Rightarrow> 0 | Some t \<Rightarrow> t)) / 1000"

text \<open>
  Timer.js, lines 33-43: the bonus label beside the running clock, from the component's
  \<open>canAnswer\<close> property and the elapsed seconds.
\<close>

definition bonusText :: "bool \<Rightarrow> rat \<Rightarrow> string" where
  "bonusText canAnswerNow elapsedTime =
     (if \<not> canAnswerNow then ''Reading period''
      else if elapsedTime \<le> 5 then ''+3 bonus''
      else if elapsedTime \<le> 15 then ''+1 bonus''
      else ''No time bonus'')"

section \<open>The room snapshot and its answer counts\<close>

text \<open>
  \<open>setRoom\<close> in \<open>fetchRoomDetails\<close>, lines 77-87:
  \<^verbatim>\<open>{...prev, ...response.data, answers: response.data.answers || prev.answers}\<close>.
  A key of the response overwrites the snapshot's; a key the response lacks keeps the
  snapshot's value. The keys \<open>status\<close>, \<open>type\<close>, \<open>players\<close>, \<open>maxPlayers\<close> and
  \<open>maxRounds\<close> are taken to be in every response.
\<close>

definition spread :: "'a js \<Rightarrow> 'a js \<Rightarrow> 'a js" where
  "spread old new = (case new of Undefined \<Rightarrow> old | _ \<Rightarrow> new)"

definition mergeRoom :: "room \<Rightarrow> room \<Rightarrow> room" where
  "mergeRoom prev d =
     \<lparr> status = status d, roomType = roomType d,
       hostId = spread (hostId prev) (hostId d),
       players = players d, maxPlayers = maxPlayers d, maxRounds = maxRounds d,
       currentRound = spread (currentRound prev) (currentRound d),
       currentQuestion = spread (currentQuestion prev) (currentQuestion d),
       answers = (if truthy (answers d) then answers d else answers prev) \<rparr>"

text \<open>
  The filters the component counts answers with (lines 121-124, 131-135, 284-295):
  the facts of one question and round, and those among them answered yes.
\<close>

definition countFor :: "ident \<Rightarrow> int js \<Rightarrow> answer list \<Rightarrow> nat" where
  "countFor qid rnd as =
     length (filter (\<lambda>a. a_question a = qid \<and> a_round a = rnd) as)"

definition yesCountFor :: "ident \<Rightarrow> int js \<Rightarrow> answer list \<Rightarrow> nat" where
  "yesCountFor qid rnd as =
     length (filter (\<lambda>a. a_question a = qid \<and> a_round a = rnd \<and> a_answer a) as)"

text \<open>\<open>answerCount\<close> of the render, lines 702-704, for the snapshot's own question and round.\<close>

definition answerCount :: "room \<Rightarrow> nat" where
  "answerCount r =
     (case answers r of
        Val as \<Rightarrow>
          (case currentQuestion r of
             Val q \<Rightarrow> countFor (q_id q) (currentRound r) as
           | _ \<Rightarrow> 0)
      | _ \<Rightarrow> 0)"

definition answersOrEmpty :: "room \<Rightarrow> answer list" where
  "answersOrEmpty r = (case answers r of Val as \<Rightarrow> as | _ \<Rightarrow> [])"

definition isUserInRoom :: "ident \<Rightarrow> room \<Rightarrow> bool" where
  "isUserInRoom me r = list_ex (\<lambda>p. p_user_id p = me) (players r)"

section \<open>fetchRoomDetails\<close>

text \<open>
  Lines 46-68 and the request of line 70. The pending timer of \<open>fetchTimeoutRef\<close> is
  cleared first; the three guards return before the \<open>try\<close>, so the \<open>finally\<close> block does
  not run for them.
\<close>

definition fetchRoomDetails_request ::
  "closure \<Rightarrow> bool \<Rightarrow> int \<Rightarrow> state \<Rightarrow> state \<times> effect list" where
  "fetchRoomDetails_request cl force now st =
     (let st1 = st\<lparr>fetchTimeoutRef := None\<rparr> in
      if fetchInProgressRef st1 \<and> \<not> force then (st1, [])
      else if c_isTransitioning cl \<and> \<not> force then (st1, [])
      else if \<not> force \<and> now - c_lastUpdated cl < 3000 then (st1, [])
      else (st1\<lparr>fetchInProgressRef := True, isRefreshing := True,
                isLoading := (if c_room cl = None then True else isLoading st1)\<rparr>,
            [ApiGetRoom]))"

text \<open>Lines 89-97: whether the current user has a fact for the response's question and round.\<close>

definition userAnsweredCurrentQuestion :: "ident \<Rightarrow> room \<Rightarrow> question \<Rightarrow> bool" where
  "userAnsweredCurrentQuestion me d q =
     (case answers d of
        Val as \<Rightarrow> list_ex (\<lambda>a. a_user a = me \<and> a_question a = q_id q
                                \<and> a_round a = currentRound d) as
      | _ \<Rightarrow> False)"

text \<open>Lines 102-104, against the room the callback captured (\<open>prevRoom\<close>).\<close>

definition questionChanged :: "closure \<Rightarrow> room \<Rightarrow> question \<Rightarrow> bool" where
  "questionChanged cl d q =
     (case c_room cl of
        None \<Rightarrow> True
      | Some prevRoom \<Rightarrow>
          (case currentQuestion prevRoom of
             Val pq \<Rightarrow> (if q_id pq = q_id q then currentRound prevRoom \<noteq> currentRound d
                        else True)
           | _ \<Rightarrow> True))"

text \<open>Lines 119-145: the summary computed from a response in which everybody answered.\<close>

definition responseSummary :: "room \<Rightarrow> question \<Rightarrow> summary option" where
  "responseSummary d q =
     (let as = answersOrEmpty d;
          answerCount = countFor (q_id q) (currentRound d) as;
          allAnswered = (answerCount = length (players d) \<and> length (players d) > 0)
      in if allAnswered
         then Some \<lparr> yesCount = int (yesCountFor (q_id q) (currentRound d) as),
                     noCount = int answerCount - int (yesCountFor (q_id q) (currentRound d) as),
                     s_question = q_text q \<rparr>
         else None)"

text \<open>Lines 72-146, the body run for a response with data.\<close>

definition applyResponse ::
  "closure \<Rightarrow> ident \<Rightarrow> room \<Rightarrow> int \<Rightarrow> state \<Rightarrow> state \<times> effect list" where
  "applyResponse cl me d now st =
     (let st1 = st\<lparr>room := Some (case room st of None \<Rightarrow> d
                                   | Some prev \<Rightarrow> mergeRoom prev d)\<rparr>
      in case currentQuestion d of
           Val q \<Rightarrow>
             if status d = ''playing'' then
               (let st2 = st1\<lparr>hasAnswered := userAnsweredCurrentQuestion me d q\<rparr>;
                    reset = (questionChanged cl d q \<and> \<not> c_isTransitioning cl);
                    st3 = (if reset
                           then st2\<lparr>questionStartTime := Some now, canAnswer := False,
                                    roundResults := None\<rparr>
                           else st2);
                    st4 = (if c_isTransitioning cl then st3
                           else case responseSummary d q of
                                  Some s \<Rightarrow> (if c_roundResults cl = None
                                             then st3\<lparr>roundResults := Some s\<rparr> else st3)
                                | None \<Rightarrow> st3)
                in (st4, if reset then [SetTimeout 3000 EnableAnswer] else []))
             else (st1, [])
         | _ \<Rightarrow> (st1, []))"

text \<open>
  Lines 70-166 after the \<open>await\<close>. The result is a transport error, or the response's
  data (\<open>None\<close> when \<open>response.data\<close> is empty). \<open>now\<close> is the clock read at line 108,
  \<open>updateTime\<close> the one read in the \<open>finally\<close> block.
\<close>

definition fetchRoomDetails_settle ::
  "closure \<Rightarrow> ident \<Rightarrow> transport_error + room option \<Rightarrow> int \<Rightarrow> int \<Rightarrow> state
     \<Rightarrow> state \<times> effect list" where
  "fetchRoomDetails_settle cl me res now updateTime st =
     (let (st1, fx) =
        (case res of
           Inr (Some d) \<Rightarrow> applyResponse cl me d now st
         | Inr None \<Rightarrow> (st, [])
         | Inl err \<Rightarrow>
             (case c_room cl of
                None \<Rightarrow> (st\<lparr>error := Some ''Failed to load room details''\<rparr>, [ConsoleError])
              | Some r \<Rightarrow>
                  (st, if c_isTransitioning cl then [ConsoleError]
                       else [ConsoleError,
                             Toast ToastError
                               ''Failed to refresh room data. Will retry shortly.''])))
      in (st1\<lparr>isLoading := False, isRefreshing := False, fetchInProgressRef := False,
               lastUpdated := updateTime, lastPollingUpdate := updateTime\<rparr>, fx))"

text \<open>\<open>scheduleNextFetch\<close>, lines 170-180, and the callback of its timer.\<close>

definition scheduleNextFetch :: "int \<Rightarrow> state \<Rightarrow> state \<times> effect list" where
  "scheduleNextFetch delay st =
     (st\<lparr>fetchTimeoutRef := Some delay\<rparr>, [SetTimeout delay ScheduledFetch])"

definition scheduledFetch ::
  "closure \<Rightarrow> closure \<Rightarrow> int \<Rightarrow> state \<Rightarrow> state \<times> effect list" where
  "scheduledFetch cl fcl now st =
     (if \<not> c_isTransitioning cl \<and> \<not> fetchInProgressRef st
      then fetchRoomDetails_request fcl False now st
      else (st, []))"

section \<open>Push events\<close>

record answered_payload =
  userId :: ident
  pa_answer :: bool

text \<open>
  \<open>'player-answered'\<close>, lines 259-316. The updater reads \<open>prev.currentQuestion._id\<close>
  (line 266 or 277), a TypeError when the snapshot has no current question. The summary
  is published by a 500 ms timer.
\<close>

definition playerAnswered ::
  "closure \<Rightarrow> answered_payload option \<Rightarrow> state \<Rightarrow> exn + state \<times> effect list" where
  "playerAnswered cl data st =
     (case (c_room cl, data) of
        (Some r, Some dat) \<Rightarrow>
          if userId dat = [] then Inr (st, [])
          else
            (case room st of
               None \<Rightarrow> Inl TypeError
             | Some prev \<Rightarrow>
                 (case currentQuestion prev of
                    Val q \<Rightarrow>
                      (let answerExists =
                             list_ex (\<lambda>a. a_user a = userId dat \<and> a_question a = q_id q
                                            \<and> a_round a = currentRound prev)
                               (answersOrEmpty prev)
                       in if answerExists then Inr (st, [])
                          else
                            (let updatedAnswers = answersOrEmpty prev @
                                   [\<lparr> a_user = userId dat, a_question = q_id q,
                                      a_round = currentRound prev, a_answer = pa_answer dat,
                                      a_timeToAnswer = None \<rparr>];
                                 answerCount = countFor (q_id q) (currentRound prev) updatedAnswers;
                                 yesAnswers = yesCountFor (q_id q) (currentRound prev) updatedAnswers
                             in Inr (st\<lparr>room := Some (prev\<lparr>answers := Val updatedAnswers\<rparr>)\<rparr>,
                                     if answerCount = length (players prev)
                                        \<and> length (players prev) > 0 \<and> c_roundResults cl = None
                                     then [SetTimeout 500 (PublishRoundResults
                                             \<lparr> yesCount = int yesAnswers,
                                               noCount = int answerCount - int yesAnswers,
                                               s_question = q_text q \<rparr>)]
                                     else [])))
                  | _ \<Rightarrow> Inl TypeError))
      | _ \<Rightarrow> Inr (st, []))"

text \<open>The timer set at lines 300-306, when it fires.\<close>

definition publishRoundResults :: "summary \<Rightarrow> state \<Rightarrow> state" where
  "publishRoundResults s st = st\<lparr>roundResults := Some s\<rparr>"

text \<open>
  \<open>'round-started'\<close>, lines 330-357, and the callback of its 3000 ms timer (lines
  352-356), which ends the transition and starts a forced fetch. Without a snapshot the
  updater leaves a room that has nothing but a round and a question, whose \<open>players\<close>
  the next render cannot read.
\<close>

record round_payload =
  rp_currentRound :: "int js"
  rp_currentQuestion :: "question js"

definition roundStarted ::
  "round_payload \<Rightarrow> int \<Rightarrow> state \<Rightarrow> exn + state \<times> effect list" where
  "roundStarted data now st =
     (case room st of
        None \<Rightarrow> Inl TypeError
      | Some prev \<Rightarrow>
          Inr (st\<lparr>isTransitioning := True, roundResults := None, hasAnswered := False,
                  canAnswer := False,
                  room := Some (prev\<lparr>currentRound := rp_currentRound data,
                                      currentQuestion := rp_currentQuestion data\<rparr>),
                  questionStartTime := Some now\<rparr>,
               [ToastRoundStarted (rp_currentRound data), SetTimeout 3000 EndTransition]))"

definition endTransition :: "closure \<Rightarrow> int \<Rightarrow> state \<Rightarrow> state \<times> effect list" where
  "endTransition fcl now st =
     fetchRoomDetails_request fcl True now (st\<lparr>canAnswer := True, isTransitioning := False\<rparr>)"

text \<open>\<open>'all-players-answered'\<close>, lines 318-328; the toast is for the host only.\<close>

definition isUserHost :: "closure \<Rightarrow> ident \<Rightarrow> bool" where
  "isUserHost cl me = (case c_room cl of None \<Rightarrow> False | Some r \<Rightarrow> hostId r = Val me)"

definition allPlayersAnswered ::
  "closure \<Rightarrow> ident \<Rightarrow> summary option \<Rightarrow> state \<Rightarrow> state \<times> effect list" where
  "allPlayersAnswered cl me data st =
     ((case data of Some d \<Rightarrow> st\<lparr>roundResults := Some d\<rparr> | None \<Rightarrow> st),
      if isUserHost cl me
      then [Toast ToastInfo ''All players answered! You can proceed to the next round.'']
      else [])"

section \<open>handleAnswer\<close>

text \<open>
  Lines 510-525: the elapsed time is recorded, \<open>hasAnswered\<close> is set at once, and the
  answer is posted.
\<close>

definition handleAnswer_request ::
  "closure \<Rightarrow> ident \<Rightarrow> bool \<Rightarrow> int \<Rightarrow> state \<Rightarrow> state \<times> effect list" where
  "handleAnswer_request cl me ans now st =
     (let t = timeToAnswer now (c_questionStartTime cl)
      in (st\<lparr>answerTime := Some t, hasAnswered := True\<rparr>, [ApiPostAnswer me ans t]))"

text \<open>
  Lines 527-561, once the post settles; \<open>t\<close> is the \<open>timeToAnswer\<close> of the request.
  On success the fact is appended to the snapshot's answers as it is; on failure
  \<open>hasAnswered\<close> is set to false.
\<close>

definition handleAnswer_settle ::
  "closure \<Rightarrow> ident \<Rightarrow> bool \<Rightarrow> rat \<Rightarrow> transport_error + unit \<Rightarrow> state
     \<Rightarrow> exn + state \<times> effect list" where
  "handleAnswer_settle cl me ans t res st =
     (case res of
        Inl err \<Rightarrow>
          Inr (st\<lparr>hasAnswered := False\<rparr>,
               [ConsoleError, Toast ToastError ''Failed to submit answer''])
      | Inr ok \<Rightarrow>
          (case c_room cl of
             None \<Rightarrow> Inr (st, [SocketSubmitAnswer me ans t, tierToast (tier t)])
           | Some r \<Rightarrow>
               (case room st of
                  None \<Rightarrow> Inl TypeError
                | Some prev \<Rightarrow>
                    (case currentQuestion prev of
                       Val q \<Rightarrow>
                         Inr (st\<lparr>room := Some (prev\<lparr>answers := Val (answersOrEmpty prev @
                                  [\<lparr> a_user = me, a_question = q_id q,
                                     a_round = currentRound prev, a_answer = ans,
                                     a_timeToAnswer = Some t \<rparr>])\<rparr>)\<rparr>,
                              [SocketSubmitAnswer me ans t, tierToast (tier t)])
                     | _ \<Rightarrow> Inl TypeError))))"

text \<open>
  The answer buttons: the question card is rendered for a playing room with a current
  question and no summary (lines 920-947), and its buttons are disabled by line 944.
\<close>

definition answerDisabled :: "ident \<Rightarrow> state \<Rightarrow> room \<Rightarrow> bool" where
  "answerDisabled me st r =
     (\<not> isUserInRoom me r \<or> hasAnswered st \<or> \<not> canAnswer st \<or> isTransitioning st)"

definition canClickAnswer :: "ident \<Rightarrow> state \<Rightarrow> bool" where
  "canClickAnswer me st =
     (case room st of
        None \<Rightarrow> False
      | Some r \<Rightarrow> status r = ''playing'' \<and> truthy (currentQuestion r)
                    \<and> roundResults st = None \<and> \<not> answerDisabled me st r)"

section \<open>Polling\<close>









section \<open>Joining a room\<close>

text \<open>
  \<open>handleJoinRoom\<close>, lines 424-442. Reading \<open>room.type\<close> of no room throws inside the
  \<open>try\<close>; the handler itself has no test of the passcode.
\<close>

definition handleJoinRoom_request ::
  "closure \<Rightarrow> ident \<Rightarrow> state \<Rightarrow> state \<times> effect list" where
  "handleJoinRoom_request cl me st =
     (case c_room cl of
        None \<Rightarrow> (st\<lparr>isJoining := False\<rparr>,
                  [ConsoleError, Toast ToastError ''Failed to join room''])
      | Some r \<Rightarrow>
          (st\<lparr>isJoining := True\<rparr>,
           [ApiPostJoin me (if roomType r = ''private'' then Val (c_passcode cl)
                            else Undefined)]))"

definition handleJoinRoom_settle ::
  "closure \<Rightarrow> ident \<Rightarrow> transport_error + unit \<Rightarrow> int \<Rightarrow> state \<Rightarrow> state \<times> effect list" where
  "handleJoinRoom_settle cl me res now st =
     (case res of
        Inr ok \<Rightarrow>
          (let (st1, fx) = fetchRoomDetails_request cl True now st
           in (st1\<lparr>isJoining := False\<rparr>,
               [SocketJoinRoom me, Toast ToastSuccess ''Joined room successfully''] @ fx))
      | Inl (TransportError msg) \<Rightarrow>
          (st\<lparr>isJoining := False\<rparr>,
           [ConsoleError,
            Toast ToastError (case msg of
                                Val m \<Rightarrow> (if m = [] then ''Failed to join room'' else m)
                              | _ \<Rightarrow> ''Failed to join room'')]))"

text \<open>
  The two buttons bound to \<open>handleJoinRoom\<close>: the header's Join Room button (lines
  736-750, shown to a user who is not in the room) and the Enter Room button of the
  passcode form (lines 792-820, shown for a private room to such a user). Only the
  second is disabled while the passcode is empty.
\<close>

definition joinButtonDisabled :: "state \<Rightarrow> room \<Rightarrow> bool" where
  "joinButtonDisabled st r =
     (isJoining st \<or> status r \<noteq> ''waiting'' \<or> int (length (players r)) \<ge> maxPlayers r)"

definition enterRoomDisabled :: "state \<Rightarrow> bool" where
  "enterRoomDisabled st = (isJoining st \<or> passcode st = [])"

definition clickJoinRoom :: "ident \<Rightarrow> state \<Rightarrow> state \<times> effect list" where
  "clickJoinRoom me st =
     (case room st of
        None \<Rightarrow> (st, [])
      | Some r \<Rightarrow>
          if isUserInRoom me r then (st, [])
          else if joinButtonDisabled st r then (st, [])
          else handleJoinRoom_request (capture st) me st)"

definition clickEnterRoom :: "ident \<Rightarrow> state \<Rightarrow> state \<times> effect list" where
  "clickEnterRoom me st =
     (case room st of
        None \<Rightarrow> (st, [])
      | Some r \<Rightarrow>
          if roomType r = ''private'' \<and> \<not> isUserInRoom me r
          then (if enterRoomDisabled st then (st, [])
                else handleJoinRoom_request (capture st) me st)
          else (st, []))"

section \<open>Example rooms and states\<close>

definition q1 :: question where
  "q1 = \<lparr> q_id = ''q1'', q_text = ''missed a flight'' \<rparr>"

definition q2 :: question where
  "q2 = \<lparr> q_id = ''q2'', q_text = ''eaten snails'' \<rparr>"

definition alice :: player where
  "alice = \<lparr> p_user_id = ''u1'', p_name = ''Alice'', p_points = 0 \<rparr>"

definition bob :: player where
  "bob = \<lparr> p_user_id = ''u2'', p_name = ''Bob'', p_points = 0 \<rparr>"

definition aliceYes :: answer where
  "aliceYes = \<lparr> a_user = ''u1'', a_question = ''q1'', a_round = Val 1, a_answer = True,
                 a_timeToAnswer = None \<rparr>"

definition bobNo :: answer where
  "bobNo = \<lparr> a_user = ''u2'', a_question = ''q1'', a_round = Val 1, a_answer = False,
              a_timeToAnswer = None \<rparr>"

text \<open>A public room in round 1 of 3 with two players and the given answers.\<close>

definition playingRoom :: "answer list js \<Rightarrow> room" where
  "playingRoom as =
     \<lparr> status = ''playing'', roomType = ''public'', hostId = Val ''u1'',
       players = [alice, bob], maxPlayers = 4, maxRounds = 3,
       currentRound = Val 1, currentQuestion = Val q1, answers = as \<rparr>"

text \<open>The same room as the server reports it in round 2.\<close>

definition roundTwoRoom :: room where
  "roundTwoRoom = (playingRoom (Val []))\<lparr>currentRound := Val 2, currentQuestion := Val q2\<rparr>"

text \<open>A private room waiting for players; the user \<open>u3\<close> is not in it.\<close>

definition privateRoom :: room where
  "privateRoom =
     \<lparr> status = ''waiting'', roomType = ''private'', hostId = Val ''u1'',
       players = [alice, bob], maxPlayers = 4, maxRounds = 3,
       currentRound = Undefined, currentQuestion = Undefined, answers = Val [] \<rparr>"

text \<open>The state of a client showing the room \<open>r\<close>, last updated at time 0.\<close>

definition showing :: "room \<Rightarrow> state" where
  "showing r =
     \<lparr> room = Some r, isLoading = False, error = None, isJoining = False, passcode = [],
       roundResults = None, hasAnswered = False, questionStartTime = Some 0,
       answerTime = None, canAnswer = True, lastUpdated = 0, lastPollingUpdate = 0,
       isRefreshing = False, isTransitioning = False, fetchTimeoutRef = None,
       fetchInProgressRef = False \<rparr>"

text \<open>The same client in the middle of a round transition.\<close>

definition transitioning :: "room \<Rightarrow> state" where
  "transitioning r = (showing r)\<lparr>isTransitioning := True, canAnswer := False\<rparr>"

text \<open>
  A client on which both players have answered round 1, its poll on the way, and the
  state in which the \<open>round-started\<close> event for round 2 leaves it.
\<close>

definition roundOneDone :: state where
  "roundOneDone = showing (playingRoom (Val [aliceYes, bobNo]))"

definition pollInFlight :: state where
  "pollInFlight = fst (fetchRoomDetails_request (capture roundOneDone) False 5000 roundOneDone)"

definition duringTransition :: state where
  "duringTransition =
     (case roundStarted \<lparr> rp_currentRound = Val 2, rp_currentQuestion = Val q2 \<rparr> 6000
             pollInFlight of
        Inr (s, fx) \<Rightarrow> s
      | Inl e \<Rightarrow> pollInFlight)"


section \<open>Auxiliary facts\<close>

lemma settle_room:
  "room (fst (fetchRoomDetails_settle cl me (Inr (Some d)) now u st))
     = Some (case room st of None \<Rightarrow> d | Some prev \<Rightarrow> mergeRoom prev d)"
  by (simp add: fetchRoomDetails_settle_def applyResponse_def Let_def split_def
      split: js.splits option.splits)

lemma settle_isTransitioning:
  "isTransitioning (fst (fetchRoomDetails_settle cl me res now u st)) = isTransitioning st"
  by (simp add: fetchRoomDetails_settle_def applyResponse_def Let_def split_def
      split: js.splits option.splits sum.splits)

lemma playerAnswered_duplicate:
  assumes "room st = Some prev" "currentQuestion prev = Val q" "c_room cl = Some r"
    "userId dat \<noteq> []"
    "list_ex (\<lambda>a. a_user a = userId dat \<and> a_question a = q_id q
                   \<and> a_round a = currentRound prev) (answersOrEmpty prev)"
  shows "playerAnswered cl (Some dat) st = Inr (st, [])"
  using assms by (simp add: playerAnswered_def)

text \<open>
  The guard of line 61 compares with the timestamp that the callback holds: less than
  3000 ms after it, a fetch that is not forced returns without a request and changes
  nothing but the handle of a pending fetch timer.
\<close>

lemma fetch_guard_of_callback:
  assumes "now - c_lastUpdated cl < 3000"
  shows "fetchRoomDetails_request cl False now st = (st\<lparr>fetchTimeoutRef := None\<rparr>, [])"
  using assms by (simp add: fetchRoomDetails_request_def Let_def)

section \<open>Theorems\<close>

subsection \<open>Merging a poll response\<close>

text \<open>
  C1, as the code has it. When a poll response is merged into an existing snapshot, the
  merged answers are the response's answers whenever the response has an \<open>answers\<close>
  list, and the snapshot's own answers only when the response has none: local facts
  missing from a response's list are dropped, not kept. Hence, whatever was pushed
  before, the per-question/round count (and the yes count) after the merge is the count
  within the response's list; and a \<open>player-answered\<close> event for a user who already has
  a fact for the merged snapshot's question and round changes nothing. A fact delivered
  once by push and once in a poll response's list, in either order, is therefore counted
  as often as it occurs in that list.
\<close>

theorem poll_and_push_answers:
  assumes "room st = Some prev"
  shows "room (fst (fetchRoomDetails_settle cl me (Inr (Some d)) now u st))
           = Some (mergeRoom prev d)
     \<and> answers (mergeRoom prev d) = (if truthy (answers d) then answers d else answers prev)
     \<and> (answers d = Val as \<longrightarrow>
          countFor qid rnd (answersOrEmpty (mergeRoom prev d)) = countFor qid rnd as
          \<and> yesCountFor qid rnd (answersOrEmpty (mergeRoom prev d)) = yesCountFor qid rnd as)
     \<and> (c_room cl' \<noteq> None \<and> userId dat \<noteq> [] \<and> currentQuestion (mergeRoom prev d) = Val q
        \<and> list_ex (\<lambda>a. a_user a = userId dat \<and> a_question a = q_id q
                        \<and> a_round a = currentRound (mergeRoom prev d))
             (answersOrEmpty (mergeRoom prev d))
        \<longrightarrow> playerAnswered cl' (Some dat)
               (fst (fetchRoomDetails_settle cl me (Inr (Some d)) now u st))
             = Inr (fst (fetchRoomDetails_settle cl me (Inr (Some d)) now u st), []))"
proof -
  let ?st' = "fst (fetchRoomDetails_settle cl me (Inr (Some d)) now u st)"
  have r: "room ?st' = Some (mergeRoom prev d)"
    using assms by (simp add: settle_room)
  have a: "answers (mergeRoom prev d) = (if truthy (answers d) then answers d else answers prev)"
    by (simp add: mergeRoom_def)
  have c: "answers d = Val as \<longrightarrow>
          countFor qid rnd (answersOrEmpty (mergeRoom prev d)) = countFor qid rnd as
          \<and> yesCountFor qid rnd (answersOrEmpty (mergeRoom prev d)) = yesCountFor qid rnd as"
    by (simp add: mergeRoom_def answersOrEmpty_def)
  have p: "playerAnswered cl' (Some dat) ?st' = Inr (?st', [])"
    if "c_room cl' \<noteq> None" "userId dat \<noteq> []" "currentQuestion (mergeRoom prev d) = Val q"
      "list_ex (\<lambda>a. a_user a = userId dat \<and> a_question a = q_id q
                        \<and> a_round a = currentRound (mergeRoom prev d))
             (answersOrEmpty (mergeRoom prev d))"
  proof -
    from that(1) obtain r0 where "c_room cl' = Some r0" by auto
    then show ?thesis
      using playerAnswered_duplicate [OF r that(3) _ that(2) that(4)] by simp
  qed
  show ?thesis using r a c p by blast
qed

text \<open>
  The claim as stated fails: a snapshot holding Alice's answer, merged with a response
  whose answers list is empty, holds no answer any more.
\<close>

theorem poll_overwrites_answers:
  "answersOrEmpty (playingRoom (Val [aliceYes])) = [aliceYes]
   \<and> room (fst (fetchRoomDetails_settle (capture (showing (playingRoom (Val [aliceYes]))))
               ''u2'' (Inr (Some (playingRoom (Val [])))) 5000 5000
               (showing (playingRoom (Val [aliceYes])))))
       = Some (playingRoom (Val []))
   \<and> aliceYes \<notin> set (answersOrEmpty (playingRoom (Val [])))"
  by (simp add: settle_room showing_def mergeRoom_def playingRoom_def spread_def
      answersOrEmpty_def)

text \<open>
  The theorem at a snapshot to which Alice's answer was pushed and a response that lists
  it once: the count is 1 after the merge, and a second push of it changes nothing.
\<close>

theorem poll_and_push_answers_witness:
  "room (showing (playingRoom (Val [aliceYes]))) = Some (playingRoom (Val [aliceYes]))
   \<and> playerAnswered (capture (showing (playingRoom (Val []))))
        (Some \<lparr> userId = ''u1'', pa_answer = True \<rparr>) (showing (playingRoom (Val [])))
       = Inr (showing (playingRoom (Val [aliceYes])), [])
   \<and> room (fst (fetchRoomDetails_settle (capture (showing (playingRoom (Val [aliceYes]))))
                  ''u2'' (Inr (Some (playingRoom (Val [aliceYes])))) 5000 5000
                  (showing (playingRoom (Val [aliceYes])))))
       = Some (mergeRoom (playingRoom (Val [aliceYes])) (playingRoom (Val [aliceYes])))
   \<and> countFor ''q1'' (Val 1)
        (answersOrEmpty (mergeRoom (playingRoom (Val [aliceYes])) (playingRoom (Val [aliceYes]))))
       = 1
   \<and> playerAnswered (capture (showing (playingRoom (Val [aliceYes]))))
        (Some \<lparr> userId = ''u1'', pa_answer = True \<rparr>)
        (fst (fetchRoomDetails_settle (capture (showing (playingRoom (Val [aliceYes]))))
                ''u2'' (Inr (Some (playingRoom (Val [aliceYes])))) 5000 5000
                (showing (playingRoom (Val [aliceYes])))))
       = Inr (fst (fetchRoomDetails_settle (capture (showing (playingRoom (Val [aliceYes]))))
                ''u2'' (Inr (Some (playingRoom (Val [aliceYes])))) 5000 5000
                (showing (playingRoom (Val [aliceYes])))), [])"
  using poll_and_push_answers [of "showing (playingRoom (Val [aliceYes]))"
      "playingRoom (Val [aliceYes])" "capture (showing (playingRoom (Val [aliceYes])))"
      "''u2''" "playingRoom (Val [aliceYes])" 5000 5000 "[aliceYes]" "''q1''" "Val 1"
      "capture (showing (playingRoom (Val [aliceYes])))"
      "\<lparr> userId = ''u1'', pa_answer = True \<rparr>" q1]
  by (simp add: showing_def playingRoom_def mergeRoom_def spread_def answersOrEmpty_def
      countFor_def aliceYes_def q1_def capture_def playerAnswered_def alice_def bob_def
      yesCountFor_def Let_def)

subsection \<open>Polls during a round transition\<close>

text \<open>
  C2, as the code has it. A fetch that is not forced and is started by a callback that
  sees a transition in progress returns without a request, and so does the timer of
  \<open>scheduleNextFetch\<close>; the state keeps nothing of it but the cleared timer handle, so
  the poll is dropped, not deferred. A response that does arrive (a forced fetch, or one
  already on its way) is merged at once, whatever the transition flag: the snapshot's
  \<open>currentRound\<close> and \<open>currentQuestion\<close> become the response's wherever the response
  carries them. Only the question timer, \<open>canAnswer\<close> and the round results are left
  alone, with no effect emitted, when the callback saw the transition. When the timer
  of a pushed transition ends it, a new forced fetch is requested.
\<close>

theorem transition_polls:
  "(c_isTransitioning cl \<longrightarrow>
      fetchRoomDetails_request cl False now st = (st\<lparr>fetchTimeoutRef := None\<rparr>, [])
      \<and> scheduledFetch cl fcl now st = (st, []))
   \<and> (room st = Some prev \<longrightarrow>
        room (fst (fetchRoomDetails_settle cl me (Inr (Some d)) now' u st))
          = Some (mergeRoom prev d)
        \<and> currentRound (mergeRoom prev d) = spread (currentRound prev) (currentRound d)
        \<and> currentQuestion (mergeRoom prev d)
            = spread (currentQuestion prev) (currentQuestion d))
   \<and> (c_isTransitioning cl \<longrightarrow>
        questionStartTime (fst (fetchRoomDetails_settle cl me (Inr (Some d)) now' u st))
          = questionStartTime st
        \<and> canAnswer (fst (fetchRoomDetails_settle cl me (Inr (Some d)) now' u st))
            = canAnswer st
        \<and> roundResults (fst (fetchRoomDetails_settle cl me (Inr (Some d)) now' u st))
            = roundResults st
        \<and> snd (fetchRoomDetails_settle cl me (Inr (Some d)) now' u st) = [])
   \<and> snd (endTransition fcl now st) = [ApiGetRoom]
   \<and> \<not> isTransitioning (fst (endTransition fcl now st))"
proof -
  have a: "c_isTransitioning cl \<longrightarrow>
      fetchRoomDetails_request cl False now st = (st\<lparr>fetchTimeoutRef := None\<rparr>, [])
      \<and> scheduledFetch cl fcl now st = (st, [])"
    by (simp add: fetchRoomDetails_request_def scheduledFetch_def Let_def)
  have b: "room st = Some prev \<longrightarrow>
        room (fst (fetchRoomDetails_settle cl me (Inr (Some d)) now' u st))
          = Some (mergeRoom prev d)
        \<and> currentRound (mergeRoom prev d) = spread (currentRound prev) (currentRound d)
        \<and> currentQuestion (mergeRoom prev d)
            = spread (currentQuestion prev) (currentQuestion d)"
    by (simp add: settle_room mergeRoom_def)
  have c: "c_isTransitioning cl \<longrightarrow>
        questionStartTime (fst (fetchRoomDetails_settle cl me (Inr (Some d)) now' u st))
          = questionStartTime st
        \<and> canAnswer (fst (fetchRoomDetails_settle cl me (Inr (Some d)) now' u st))
            = canAnswer st
        \<and> roundResults (fst (fetchRoomDetails_settle cl me (Inr (Some d)) now' u st))
            = roundResults st
        \<and> snd (fetchRoomDetails_settle cl me (Inr (Some d)) now' u st) = []"
    by (simp add: fetchRoomDetails_settle_def applyResponse_def Let_def split_def
        split: js.splits)
  have e: "snd (endTransition fcl now st) = [ApiGetRoom]
     \<and> \<not> isTransitioning (fst (endTransition fcl now st))"
    by (simp add: endTransition_def fetchRoomDetails_request_def Let_def)
  show ?thesis using a b c e by blast
qed

text \<open>
  The claim as stated fails: a poll is on its way when the \<open>round-started\<close> event
  for round 2 arrives; its response, the room as it was in round 1, settles during the
  transition and puts the snapshot back to round 1 and its question while the
  transition is still in progress.
\<close>

theorem poll_during_transition_changes_round:
  "snd (fetchRoomDetails_request (capture roundOneDone) False 5000 roundOneDone) = [ApiGetRoom]
   \<and> roundStarted \<lparr> rp_currentRound = Val 2, rp_currentQuestion = Val q2 \<rparr> 6000 pollInFlight
       = Inr (duringTransition, [ToastRoundStarted (Val 2), SetTimeout 3000 EndTransition])
   \<and> isTransitioning duringTransition
   \<and> map_option currentRound (room duringTransition) = Some (Val 2)
   \<and> map_option currentQuestion (room duringTransition) = Some (Val q2)
   \<and> map_option currentRound
       (room (fst (fetchRoomDetails_settle (capture roundOneDone) ''u1''
                     (Inr (Some (playingRoom (Val [aliceYes, bobNo])))) 6100 6100
                     duringTransition)))
       = Some (Val 1)
   \<and> map_option currentQuestion
       (room (fst (fetchRoomDetails_settle (capture roundOneDone) ''u1''
                     (Inr (Some (playingRoom (Val [aliceYes, bobNo])))) 6100 6100
                     duringTransition)))
       = Some (Val q1)
   \<and> isTransitioning
       (fst (fetchRoomDetails_settle (capture roundOneDone) ''u1''
               (Inr (Some (playingRoom (Val [aliceYes, bobNo])))) 6100 6100 duringTransition))"
  by (simp add: settle_room settle_isTransitioning duringTransition_def pollInFlight_def
      roundOneDone_def roundStarted_def fetchRoomDetails_request_def showing_def
      mergeRoom_def playingRoom_def spread_def Let_def capture_def)

text \<open>The theorem at that transition.\<close>

theorem transition_polls_witness:
  "c_isTransitioning (capture (transitioning roundTwoRoom))
   \<and> fetchRoomDetails_request (capture (transitioning roundTwoRoom)) False 9000
        (transitioning roundTwoRoom) = (transitioning roundTwoRoom, [])
   \<and> scheduledFetch (capture (transitioning roundTwoRoom))
        (capture (transitioning roundTwoRoom)) 9000 (transitioning roundTwoRoom)
       = (transitioning roundTwoRoom, [])
   \<and> room (transitioning roundTwoRoom) = Some roundTwoRoom
   \<and> room (fst (fetchRoomDetails_settle (capture (transitioning roundTwoRoom)) ''u1''
                  (Inr (Some (playingRoom (Val [])))) 1000 1000 (transitioning roundTwoRoom)))
       = Some (mergeRoom roundTwoRoom (playingRoom (Val [])))
   \<and> currentRound (mergeRoom roundTwoRoom (playingRoom (Val []))) = Val 1
   \<and> canAnswer (fst (fetchRoomDetails_settle (capture (transitioning roundTwoRoom)) ''u1''
                  (Inr (Some (playingRoom (Val [])))) 1000 1000 (transitioning roundTwoRoom)))
       = canAnswer (transitioning roundTwoRoom)
   \<and> snd (fetchRoomDetails_settle (capture (transitioning roundTwoRoom)) ''u1''
            (Inr (Some (playingRoom (Val [])))) 1000 1000 (transitioning roundTwoRoom)) = []"
  using transition_polls [of "capture (transitioning roundTwoRoom)" 9000
      "transitioning roundTwoRoom" "capture (transitioning roundTwoRoom)" roundTwoRoom
      "''u1''" "playingRoom (Val [])" 1000 1000]
  by (simp add: transitioning_def showing_def capture_def roundTwoRoom_def playingRoom_def
      spread_def)

subsection \<open>The round-results summary\<close>

text \<open>
  C3, as the code has it. When the callback sees a summary, a \<open>player-answered\<close> event
  sets no timer to publish another one and leaves the summary as it is, and a settled
  poll leaves it as it is unless the response shows a playing room whose question or
  round differs from the callback's room outside a transition, in which case the
  summary is cleared. An \<open>all-players-answered\<close> event with a payload replaces the
  summary by its payload, whether or not one exists; without a payload it changes
  nothing.
\<close>

theorem summary_updates:
  "(c_roundResults cl = Some s \<longrightarrow>
      (\<forall>st' fx. playerAnswered cl data st = Inr (st', fx) \<longrightarrow>
         roundResults st' = roundResults st \<and> fx = []))
   \<and> (c_roundResults cl = Some s \<longrightarrow>
        roundResults (fst (fetchRoomDetails_settle cl me res now u st))
          = (case res of
               Inr (Some d) \<Rightarrow>
                 (case currentQuestion d of
                    Val q \<Rightarrow> (if status d = ''playing'' \<and> questionChanged cl d q
                                  \<and> \<not> c_isTransitioning cl
                               then None else roundResults st)
                  | _ \<Rightarrow> roundResults st)
             | _ \<Rightarrow> roundResults st))
   \<and> roundResults (fst (allPlayersAnswered cl me (Some d') st)) = Some d'
   \<and> roundResults (fst (allPlayersAnswered cl me None st)) = roundResults st"
proof -
  have a: "c_roundResults cl = Some s \<longrightarrow>
      (\<forall>st' fx. playerAnswered cl data st = Inr (st', fx) \<longrightarrow>
         roundResults st' = roundResults st \<and> fx = [])"
    by (auto simp add: playerAnswered_def Let_def
        split: option.splits js.splits if_splits)
  have b: "c_roundResults cl = Some s \<longrightarrow>
        roundResults (fst (fetchRoomDetails_settle cl me res now u st))
          = (case res of
               Inr (Some d) \<Rightarrow>
                 (case currentQuestion d of
                    Val q \<Rightarrow> (if status d = ''playing'' \<and> questionChanged cl d q
                                  \<and> \<not> c_isTransitioning cl
                               then None else roundResults st)
                  | _ \<Rightarrow> roundResults st)
             | _ \<Rightarrow> roundResults st)"
    by (simp add: fetchRoomDetails_settle_def applyResponse_def Let_def split_def
        split: js.splits option.splits sum.splits)
  have c: "roundResults (fst (allPlayersAnswered cl me (Some d') st)) = Some d'
     \<and> roundResults (fst (allPlayersAnswered cl me None st)) = roundResults st"
    by (simp add: allPlayersAnswered_def)
  show ?thesis using a b c by blast
qed

text \<open>
  The claim as stated fails: with the summary 1 yes, 1 no in place, an
  \<open>all-players-answered\<close> event carrying 2 yes, 0 no replaces it in the same round.
\<close>

theorem summary_replaced_by_push:
  "roundResults ((showing (playingRoom (Val [aliceYes, bobNo])))
      \<lparr>roundResults := Some \<lparr> yesCount = 1, noCount = 1, s_question = ''missed a flight'' \<rparr>\<rparr>)
     = Some \<lparr> yesCount = 1, noCount = 1, s_question = ''missed a flight'' \<rparr>
   \<and> roundResults (fst (allPlayersAnswered
        (capture ((showing (playingRoom (Val [aliceYes, bobNo])))
           \<lparr>roundResults := Some \<lparr> yesCount = 1, noCount = 1,
                                    s_question = ''missed a flight'' \<rparr>\<rparr>))
        ''u2'' (Some \<lparr> yesCount = 2, noCount = 0, s_question = ''missed a flight'' \<rparr>)
        ((showing (playingRoom (Val [aliceYes, bobNo])))
           \<lparr>roundResults := Some \<lparr> yesCount = 1, noCount = 1,
                                    s_question = ''missed a flight'' \<rparr>\<rparr>)))
     = Some \<lparr> yesCount = 2, noCount = 0, s_question = ''missed a flight'' \<rparr>"
  by (simp add: allPlayersAnswered_def showing_def)

text \<open>
  The theorem at a client that shows a summary: Bob's answer is recorded without a
  timer, and a poll of the same round keeps the summary.
\<close>

theorem summary_updates_witness:
  "c_roundResults (capture ((showing (playingRoom (Val [aliceYes])))
      \<lparr>roundResults := Some \<lparr> yesCount = 1, noCount = 1, s_question = ''missed a flight'' \<rparr>\<rparr>))
     = Some \<lparr> yesCount = 1, noCount = 1, s_question = ''missed a flight'' \<rparr>
   \<and> playerAnswered (capture ((showing (playingRoom (Val [aliceYes])))
        \<lparr>roundResults := Some \<lparr> yesCount = 1, noCount = 1, s_question = ''missed a flight'' \<rparr>\<rparr>))
        (Some \<lparr> userId = ''u2'', pa_answer = False \<rparr>)
        ((showing (playingRoom (Val [aliceYes])))
        \<lparr>roundResults := Some \<lparr> yesCount = 1, noCount = 1, s_question = ''missed a flight'' \<rparr>\<rparr>)
       = Inr ((showing (playingRoom (Val [aliceYes, bobNo])))
        \<lparr>roundResults := Some \<lparr> yesCount = 1, noCount = 1, s_question = ''missed a flight'' \<rparr>\<rparr>,
          [])
   \<and> roundResults (fst (fetchRoomDetails_settle (capture ((showing (playingRoom (Val [aliceYes])))
        \<lparr>roundResults := Some \<lparr> yesCount = 1, noCount = 1, s_question = ''missed a flight'' \<rparr>\<rparr>))
        ''u1'' (Inr (Some (playingRoom (Val [aliceYes, bobNo])))) 5000 5000
        ((showing (playingRoom (Val [aliceYes])))
        \<lparr>roundResults := Some \<lparr> yesCount = 1, noCount = 1, s_question = ''missed a flight'' \<rparr>\<rparr>)))
       = Some \<lparr> yesCount = 1, noCount = 1, s_question = ''missed a flight'' \<rparr>"
  using summary_updates [of "capture ((showing (playingRoom (Val [aliceYes])))
        \<lparr>roundResults := Some \<lparr> yesCount = 1, noCount = 1, s_question = ''missed a flight'' \<rparr>\<rparr>)"
      "\<lparr> yesCount = 1, noCount = 1, s_question = ''missed a flight'' \<rparr>"
      "Some \<lparr> userId = ''u2'', pa_answer = False \<rparr>"
      "(showing (playingRoom (Val [aliceYes])))
        \<lparr>roundResults := Some \<lparr> yesCount = 1, noCount = 1, s_question = ''missed a flight'' \<rparr>\<rparr>"
      "''u1''" "Inr (Some (playingRoom (Val [aliceYes, bobNo])))" 5000 5000]
  by (simp add: showing_def capture_def playingRoom_def playerAnswered_def answersOrEmpty_def
      aliceYes_def bobNo_def q1_def alice_def bob_def countFor_def yesCountFor_def
      questionChanged_def Let_def)

subsection \<open>Recording a duplicate answer\<close>

text \<open>
  C4 at an input on which the code records a duplicate. Alice submits yes; while her
  post is on its way her answer reaches the snapshot, by the \<open>player-answered\<close> event
  or by a poll response that lists it; then the post succeeds and \<open>handleAnswer\<close>
  appends her fact again, without the test for an existing fact that the event handler
  makes. The count for question \<open>q1\<close>, round 1 goes from 1 to 2 and so does the yes
  count; the snapshot then shows as many answers as players although Bob has not
  answered.
\<close>

theorem handleAnswer_duplicate:
  "playerAnswered
      (capture (fst (handleAnswer_request (capture (showing (playingRoom (Val [])))) ''u1''
                       True 4000 (showing (playingRoom (Val []))))))
      (Some \<lparr> userId = ''u1'', pa_answer = True \<rparr>)
      (fst (handleAnswer_request (capture (showing (playingRoom (Val [])))) ''u1''
              True 4000 (showing (playingRoom (Val [])))))
     = Inr ((showing (playingRoom (Val [aliceYes])))
              \<lparr>hasAnswered := True, answerTime := Some 4\<rparr>, [])
   \<and> handleAnswer_settle (capture (showing (playingRoom (Val [])))) ''u1'' True 4 (Inr ())
        ((showing (playingRoom (Val [aliceYes])))\<lparr>hasAnswered := True, answerTime := Some 4\<rparr>)
     = Inr ((showing (playingRoom (Val [aliceYes, aliceYes\<lparr>a_timeToAnswer := Some 4\<rparr>])))
              \<lparr>hasAnswered := True, answerTime := Some 4\<rparr>,
            [SocketSubmitAnswer ''u1'' True 4, Toast ToastSuccess ''Speed bonus: +3 points!''])
   \<and> room (fst (fetchRoomDetails_settle (capture (showing (playingRoom (Val [])))) ''u1''
        (Inr (Some (playingRoom (Val [aliceYes])))) 4100 4100
        (fst (handleAnswer_request (capture (showing (playingRoom (Val [])))) ''u1''
              True 4000 (showing (playingRoom (Val [])))))))
     = Some (playingRoom (Val [aliceYes]))
   \<and> handleAnswer_settle (capture (showing (playingRoom (Val [])))) ''u1'' True 4 (Inr ())
        (fst (fetchRoomDetails_settle (capture (showing (playingRoom (Val [])))) ''u1''
           (Inr (Some (playingRoom (Val [aliceYes])))) 4100 4100
           (fst (handleAnswer_request (capture (showing (playingRoom (Val [])))) ''u1''
              True 4000 (showing (playingRoom (Val [])))))))
     = Inr ((fst (fetchRoomDetails_settle (capture (showing (playingRoom (Val [])))) ''u1''
           (Inr (Some (playingRoom (Val [aliceYes])))) 4100 4100
           (fst (handleAnswer_request (capture (showing (playingRoom (Val [])))) ''u1''
              True 4000 (showing (playingRoom (Val [])))))))
            \<lparr>room := Some (playingRoom (Val [aliceYes, aliceYes\<lparr>a_timeToAnswer := Some 4\<rparr>]))\<rparr>,
            [SocketSubmitAnswer ''u1'' True 4, Toast ToastSuccess ''Speed bonus: +3 points!''])
   \<and> countFor ''q1'' (Val 1) [aliceYes] = 1
   \<and> countFor ''q1'' (Val 1) [aliceYes, aliceYes\<lparr>a_timeToAnswer := Some 4\<rparr>] = 2
   \<and> yesCountFor ''q1'' (Val 1) [aliceYes] = 1
   \<and> yesCountFor ''q1'' (Val 1) [aliceYes, aliceYes\<lparr>a_timeToAnswer := Some 4\<rparr>] = 2
   \<and> answerCount (playingRoom (Val [aliceYes, aliceYes\<lparr>a_timeToAnswer := Some 4\<rparr>]))
       = length (players (playingRoom (Val [aliceYes, aliceYes\<lparr>a_timeToAnswer := Some 4\<rparr>])))"
  by (simp add: handleAnswer_request_def handleAnswer_settle_def playerAnswered_def
      capture_def showing_def playingRoom_def q1_def aliceYes_def alice_def bob_def
      answersOrEmpty_def countFor_def yesCountFor_def answerCount_def timeToAnswer_def
      tier_def Let_def fetchRoomDetails_settle_def applyResponse_def mergeRoom_def
      spread_def split_def userAnsweredCurrentQuestion_def questionChanged_def
      responseSummary_def)

subsection \<open>Timing tiers\<close>

text \<open>
  C5, as the code has it. The classification made at submission, the toast of
  \<open>handleAnswer\<close>, is a function of the elapsed seconds alone, with inclusive
  boundaries: below 3 seconds the toast without a bonus for answering too quickly, from
  3 to 5 seconds the toast of the +3 bonus, above 5 up to 15 seconds the toast of the +1
  bonus, above 15 seconds the toast without a bonus for answering too slowly; every
  successful submission emits exactly that toast after the socket message. At 2.999, 3,
  5, 5.001, 15 and 15.001 seconds (2999, 3000, 5000, 5001, 15000 and 15001 ms after
  the question's start) the toasts are: none too quickly, +3, +3, +1, +1, none too
  slowly. The label of the running clock is a function of its \<open>canAnswer\<close> flag and
  the elapsed seconds: the reading period whenever the flag is false, whatever the
  time; with the flag true, +3 up to 5 seconds (below 3 seconds too), +1 above 5 up to
  15 seconds, no bonus above 15 seconds.
\<close>

theorem timing_classification:
  "tierToast (tier e)
     = (if e < 3 then Toast ToastInfo ''Base points only - answered too quickly!''
        else if e \<le> 5 then Toast ToastSuccess ''Speed bonus: +3 points!''
        else if e \<le> 15 then Toast ToastSuccess ''Speed bonus: +1 point!''
        else Toast ToastInfo ''Base points only - answered too slowly'')
   \<and> (tierToast (tier e) = Toast ToastInfo ''Base points only - answered too quickly!'')
       = (e < 3)
   \<and> (tierToast (tier e) = Toast ToastSuccess ''Speed bonus: +3 points!'')
       = (3 \<le> e \<and> e \<le> 5)
   \<and> (tierToast (tier e) = Toast ToastSuccess ''Speed bonus: +1 point!'')
       = (5 < e \<and> e \<le> 15)
   \<and> (tierToast (tier e) = Toast ToastInfo ''Base points only - answered too slowly'')
       = (15 < e)
   \<and> (\<forall>cl me ans st st' fx.
         handleAnswer_settle cl me ans e (Inr ()) st = Inr (st', fx) \<longrightarrow>
           fx = [SocketSubmitAnswer me ans e, tierToast (tier e)])
   \<and> map (\<lambda>t. tierToast (tier t)) [2.999, 3.0, 5.0, 5.001, 15.0, 15.001]
       = [Toast ToastInfo ''Base points only - answered too quickly!'',
          Toast ToastSuccess ''Speed bonus: +3 points!'',
          Toast ToastSuccess ''Speed bonus: +3 points!'',
          Toast ToastSuccess ''Speed bonus: +1 point!'',
          Toast ToastSuccess ''Speed bonus: +1 point!'',
          Toast ToastInfo ''Base points only - answered too slowly'']
   \<and> map (\<lambda>ms. tierToast (tier (timeToAnswer (t0 + ms) (Some t0))))
        [2999, 3000, 5000, 5001, 15000, 15001]
       = [Toast ToastInfo ''Base points only - answered too quickly!'',
          Toast ToastSuccess ''Speed bonus: +3 points!'',
          Toast ToastSuccess ''Speed bonus: +3 points!'',
          Toast ToastSuccess ''Speed bonus: +1 point!'',
          Toast ToastSuccess ''Speed bonus: +1 point!'',
          Toast ToastInfo ''Base points only - answered too slowly'']
   \<and> bonusText c e
       = (if \<not> c then ''Reading period''
          else if e \<le> 5 then ''+3 bonus''
          else if e \<le> 15 then ''+1 bonus''
          else ''No time bonus'')"
proof -
  have h: "\<forall>cl me ans st st' fx.
         handleAnswer_settle cl me ans e (Inr ()) st = Inr (st', fx) \<longrightarrow>
           fx = [SocketSubmitAnswer me ans e, tierToast (tier e)]"
    by (auto simp add: handleAnswer_settle_def split: option.splits js.splits)
  have t: "tierToast (tier e)
     = (if e < 3 then Toast ToastInfo ''Base points only - answered too quickly!''
        else if e \<le> 5 then Toast ToastSuccess ''Speed bonus: +3 points!''
        else if e \<le> 15 then Toast ToastSuccess ''Speed bonus: +1 point!''
        else Toast ToastInfo ''Base points only - answered too slowly'')"
    by (simp add: tier_def)
  have b: "(tierToast (tier e) = Toast ToastInfo ''Base points only - answered too quickly!'')
       = (e < 3)"
    "(tierToast (tier e) = Toast ToastSuccess ''Speed bonus: +3 points!'')
       = (3 \<le> e \<and> e \<le> 5)"
    "(tierToast (tier e) = Toast ToastSuccess ''Speed bonus: +1 point!'')
       = (5 < e \<and> e \<le> 15)"
    "(tierToast (tier e) = Toast ToastInfo ''Base points only - answered too slowly'')
       = (15 < e)"
    by (auto simp add: tier_def)
  have s: "map (\<lambda>t. tierToast (tier t)) [2.999, 3.0, 5.0, 5.001, 15.0, 15.001]
       = [Toast ToastInfo ''Base points only - answered too quickly!'',
          Toast ToastSuccess ''Speed bonus: +3 points!'',
          Toast ToastSuccess ''Speed bonus: +3 points!'',
          Toast ToastSuccess ''Speed bonus: +1 point!'',
          Toast ToastSuccess ''Speed bonus: +1 point!'',
          Toast ToastInfo ''Base points only - answered too slowly'']"
    "map (\<lambda>ms. tierToast (tier (timeToAnswer (t0 + ms) (Some t0))))
        [2999, 3000, 5000, 5001, 15000, 15001]
       = [Toast ToastInfo ''Base points only - answered too quickly!'',
          Toast ToastSuccess ''Speed bonus: +3 points!'',
          Toast ToastSuccess ''Speed bonus: +3 points!'',
          Toast ToastSuccess ''Speed bonus: +1 point!'',
          Toast ToastSuccess ''Speed bonus: +1 point!'',
          Toast ToastInfo ''Base points only - answered too slowly'']"
    by (simp_all add: tier_def timeToAnswer_def)
  have l: "bonusText c e
       = (if \<not> c then ''Reading period''
          else if e \<le> 5 then ''+3 bonus''
          else if e \<le> 15 then ''+1 bonus''
          else ''No time bonus'')"
    by (simp add: bonusText_def)
  show ?thesis using h t b s l by blast
qed

text \<open>
  The claim as stated fails for the label of the clock: at 2.999 seconds with the flag
  true it announces the +3 bonus, and at 4 seconds it announces the reading period or
  the +3 bonus according to the flag, so it is not a function of the elapsed time alone.
\<close>

theorem timer_label_in_reading_period:
  "bonusText True 2.999 = ''+3 bonus''
   \<and> bonusText False 4 = ''Reading period''
   \<and> bonusText True 4 = ''+3 bonus''
   \<and> bonusText False 4 \<noteq> bonusText True 4"
  by (simp add: bonusText_def)

text \<open>The theorem at Alice's successful submission, 4 seconds into round 1.\<close>

theorem timing_classification_witness:
  "handleAnswer_settle (capture (showing (playingRoom (Val [])))) ''u1'' True 4 (Inr ())
      (showing (playingRoom (Val [])))
     = Inr ((showing (playingRoom (Val [aliceYes\<lparr>a_timeToAnswer := Some 4\<rparr>]))),
            [SocketSubmitAnswer ''u1'' True 4, Toast ToastSuccess ''Speed bonus: +3 points!''])
   \<and> tierToast (tier 4) = Toast ToastSuccess ''Speed bonus: +3 points!''"
  using timing_classification [of 4]
  by (simp add: handleAnswer_settle_def capture_def showing_def playingRoom_def
      answersOrEmpty_def aliceYes_def q1_def tier_def)

subsection \<open>Poll failures\<close>

text \<open>
  C6, as the code has it. A poll failure in a callback that holds no snapshot sets the
  load error. A poll failure in a callback that holds a snapshot leaves the snapshot and
  the error as they are, and shows the warning toast only if the callback saw no
  transition in progress; during a transition nothing but the console line is emitted.
  In every case the snapshot is unchanged and the in-progress flags are released, so that
  a later fetch, not forced, by a callback that sees no transition and whose timestamp
  is at least 3000 ms old issues the request again.
\<close>

theorem poll_failure:
  "room (fst (fetchRoomDetails_settle cl me (Inl err) now u st)) = room st
   \<and> \<not> fetchInProgressRef (fst (fetchRoomDetails_settle cl me (Inl err) now u st))
   \<and> \<not> isRefreshing (fst (fetchRoomDetails_settle cl me (Inl err) now u st))
   \<and> (case c_room cl of
        None \<Rightarrow>
          error (fst (fetchRoomDetails_settle cl me (Inl err) now u st))
            = Some ''Failed to load room details''
          \<and> snd (fetchRoomDetails_settle cl me (Inl err) now u st) = [ConsoleError]
      | Some r \<Rightarrow>
          error (fst (fetchRoomDetails_settle cl me (Inl err) now u st)) = error st
          \<and> snd (fetchRoomDetails_settle cl me (Inl err) now u st)
              = (if c_isTransitioning cl then [ConsoleError]
                 else [ConsoleError,
                       Toast ToastError ''Failed to refresh room data. Will retry shortly.'']))
   \<and> (\<forall>cl' now'. \<not> c_isTransitioning cl' \<and> 3000 \<le> now' - c_lastUpdated cl' \<longrightarrow>
         snd (fetchRoomDetails_request cl' False now'
                (fst (fetchRoomDetails_settle cl me (Inl err) now u st))) = [ApiGetRoom])"
  by (simp add: fetchRoomDetails_settle_def fetchRoomDetails_request_def Let_def
      split: option.splits)

text \<open>
  The claim as stated fails: a poll that fails during a transition, with a snapshot in
  place, surfaces no warning.
\<close>

theorem poll_failure_silent:
  "c_room (capture (transitioning roundTwoRoom)) = Some roundTwoRoom
   \<and> room (transitioning roundTwoRoom) = Some roundTwoRoom
   \<and> snd (fetchRoomDetails_settle (capture (transitioning roundTwoRoom)) ''u1''
            (Inl (TransportError Undefined)) 5000 5000 (transitioning roundTwoRoom))
       = [ConsoleError]
   \<and> error (fst (fetchRoomDetails_settle (capture (transitioning roundTwoRoom)) ''u1''
            (Inl (TransportError Undefined)) 5000 5000 (transitioning roundTwoRoom))) = None"
  by (simp add: fetchRoomDetails_settle_def capture_def transitioning_def showing_def)

text \<open>The theorem at a failure outside a transition, and the request that follows it.\<close>

theorem poll_failure_witness:
  "c_room (capture (showing (playingRoom (Val [aliceYes])))) = Some (playingRoom (Val [aliceYes]))
   \<and> room (fst (fetchRoomDetails_settle (capture (showing (playingRoom (Val [aliceYes]))))
        ''u1'' (Inl (TransportError Undefined)) 5000 5000
        (showing (playingRoom (Val [aliceYes]))))) = Some (playingRoom (Val [aliceYes]))
   \<and> error (fst (fetchRoomDetails_settle (capture (showing (playingRoom (Val [aliceYes]))))
        ''u1'' (Inl (TransportError Undefined)) 5000 5000
        (showing (playingRoom (Val [aliceYes]))))) = None
   \<and> snd (fetchRoomDetails_settle (capture (showing (playingRoom (Val [aliceYes]))))
        ''u1'' (Inl (TransportError Undefined)) 5000 5000
        (showing (playingRoom (Val [aliceYes]))))
       = [ConsoleError, Toast ToastError ''Failed to refresh room data. Will retry shortly.'']
   \<and> \<not> c_isTransitioning (capture (showing (playingRoom (Val [aliceYes]))))
   \<and> (3000::int) \<le> 9000 - c_lastUpdated (capture (showing (playingRoom (Val [aliceYes]))))
   \<and> snd (fetchRoomDetails_request (capture (showing (playingRoom (Val [aliceYes])))) False 9000
        (fst (fetchRoomDetails_settle (capture (showing (playingRoom (Val [aliceYes]))))
           ''u1'' (Inl (TransportError Undefined)) 5000 5000
           (showing (playingRoom (Val [aliceYes])))))) = [ApiGetRoom]"
  using poll_failure [of "capture (showing (playingRoom (Val [aliceYes])))" "''u1''"
      "TransportError Undefined" 5000 5000 "showing (playingRoom (Val [aliceYes]))"]
  by (simp add: capture_def showing_def)

subsection \<open>The polling interval\<close>




subsection \<open>Joining a private room\<close>

text \<open>
  C8 at an input on which the code sends the request. In a private room that is waiting
  and not full, a user who is not in the room and has typed no passcode presses the
  header's Join Room button: the join request is posted, with the empty passcode. The
  Enter Room button of the passcode form is disabled in the same state, and posts once
  when a passcode has been typed.
\<close>

theorem join_without_passcode:
  "roomType privateRoom = ''private'' \<and> passcode (showing privateRoom) = []
   \<and> clickJoinRoom ''u3'' (showing privateRoom)
       = ((showing privateRoom)\<lparr>isJoining := True\<rparr>, [ApiPostJoin ''u3'' (Val [])])
   \<and> clickEnterRoom ''u3'' (showing privateRoom) = (showing privateRoom, [])
   \<and> clickEnterRoom ''u3'' ((showing privateRoom)\<lparr>passcode := ''1234''\<rparr>)
       = ((showing privateRoom)\<lparr>passcode := ''1234'', isJoining := True\<rparr>,
          [ApiPostJoin ''u3'' (Val ''1234'')])"
  by (simp add: clickJoinRoom_def clickEnterRoom_def handleJoinRoom_request_def
      joinButtonDisabled_def enterRoomDisabled_def isUserInRoom_def capture_def showing_def
      privateRoom_def alice_def bob_def)

subsection \<open>Rolling back a failed answer\<close>

text \<open>
  C9. The answer buttons can be pressed only while \<open>hasAnswered\<close> is false. The
  submission sets it to true; when the post fails it is set to false again, and the state
  is the one before the submission but for the recorded answer time. Whatever happened
  in between, a failed post leaves \<open>hasAnswered\<close> false and changes nothing else.
\<close>

theorem answer_rollback:
  assumes "canClickAnswer me st"
  shows "\<not> hasAnswered st
     \<and> hasAnswered (fst (handleAnswer_request cl me ans now st))
     \<and> handleAnswer_settle cl' me ans t (Inl err) (fst (handleAnswer_request cl me ans now st))
         = Inr (st\<lparr>answerTime := Some (timeToAnswer now (c_questionStartTime cl))\<rparr>,
                [ConsoleError, Toast ToastError ''Failed to submit answer''])
     \<and> handleAnswer_settle cl' me ans t (Inl err) st'
         = Inr (st'\<lparr>hasAnswered := False\<rparr>,
                [ConsoleError, Toast ToastError ''Failed to submit answer''])"
  using assms
  by (auto simp add: canClickAnswer_def answerDisabled_def handleAnswer_request_def
      handleAnswer_settle_def Let_def split: option.splits)

text \<open>The theorem at Alice's submission, 4 seconds into round 1.\<close>

theorem answer_rollback_witness:
  "canClickAnswer ''u1'' (showing (playingRoom (Val [])))
   \<and> \<not> hasAnswered (showing (playingRoom (Val [])))
   \<and> hasAnswered (fst (handleAnswer_request (capture (showing (playingRoom (Val [])))) ''u1''
        True 4000 (showing (playingRoom (Val [])))))
   \<and> handleAnswer_settle (capture (showing (playingRoom (Val [])))) ''u1'' True 4
        (Inl (TransportError Undefined))
        (fst (handleAnswer_request (capture (showing (playingRoom (Val [])))) ''u1''
           True 4000 (showing (playingRoom (Val [])))))
       = Inr ((showing (playingRoom (Val [])))\<lparr>answerTime := Some 4\<rparr>,
              [ConsoleError, Toast ToastError ''Failed to submit answer''])"
  using answer_rollback [of "''u1''" "showing (playingRoom (Val []))"
      "capture (showing (playingRoom (Val [])))" True 4000
      "capture (showing (playingRoom (Val [])))" 4 "TransportError Undefined"
      "showing (playingRoom (Val []))"]
  by (simp add: canClickAnswer_def answerDisabled_def isUserInRoom_def showing_def
      playingRoom_def alice_def bob_def capture_def timeToAnswer_def q1_def)

subsection \<open>The three-second guard of the fetch\<close>


end
